theory Spec2Isabelle
  imports Main
begin

section \<open>A model of the WebHDFS client (webhdfs/webhdfs.py)\<close>

text \<open>
  The client is Python 2. Its own code (string building, the regular expression applied
  to the network location, the branching on the response, the order of requests and
  closes) is modelled here as functions. What it calls in libraries it does not contain
  (the URL splitter \<^verbatim>\<open>urlparse\<close>, the HTTP servers behind \<^verbatim>\<open>httplib\<close>, \<^verbatim>\<open>json.loads\<close>,
  \<^verbatim>\<open>zlib\<close>) is a parameter of the model, collected in the record \<open>env\<close>.
  Logging is left out except where building the logged string can raise.
\<close>

subsection \<open>Python values and exceptions\<close>

datatype error =
    Exception string
  | TypeError
  | KeyError string
  | ValueError
  | IOError
  | ZlibError

text \<open>
  What \<^verbatim>\<open>json.loads\<close> returns. A dict is an association list read with \<open>map_of\<close>.
  Floating-point numbers are not represented.
\<close>

datatype json =
    JNull
  | JBool bool
  | JInt int
  | JStr string
  | JList "json list"
  | JDict "(string \<times> json) list"

subsection \<open>Strings\<close>

text \<open>\<^verbatim>\<open>str(n)\<close> and \<^verbatim>\<open>'%s' % n\<close> for an integer: its decimal digits, with a sign.\<close>

fun str_nat :: "nat \<Rightarrow> string" where
  "str_nat n =
     (if n < 10 then [''0123456789'' ! n]
      else str_nat (n div 10) @ [''0123456789'' ! (n mod 10)])"

declare str_nat.simps [simp del]

definition str_int :: "int \<Rightarrow> string" where
  "str_int i = (if i < 0 then CHR ''-'' # str_nat (nat (- i)) else str_nat (nat i))"

text \<open>\<^verbatim>\<open>s.strip('/')\<close>: every leading and every trailing \<open>/\<close> is removed.\<close>

definition strip_slash :: "string \<Rightarrow> string" where
  "strip_slash s =
     rev (dropWhile (\<lambda>c. c = CHR ''/'') (rev (dropWhile (\<lambda>c. c = CHR ''/'') s)))"

text \<open>\<^verbatim>\<open>s.endswith(suffix)\<close>.\<close>

definition endswith :: "string \<Rightarrow> string \<Rightarrow> bool" where
  "endswith s suffix =
     (length suffix \<le> length s \<and> drop (length s - length suffix) s = suffix)"

subsection \<open>The regular expression of \<open>parse_url\<close>\<close>

text \<open>
  \<^verbatim>\<open>re.match('([a-zA-Z0-9\-\.]+):?([0-9]{2,5})?', netloc)\<close> matches at the start of the
  string and is not anchored at its end. The host group is greedy and needs one character;
  the colon and the port group are optional, so once the host group has matched the whole
  expression matches on the first, greedy, attempt and nothing is backtracked: the host is
  the longest prefix of host characters, a colon that follows is consumed, and the port
  group holds the next digits (at most five) when there are at least two of them, and is
  \<^verbatim>\<open>None\<close> otherwise.
\<close>

definition is_digit :: "char \<Rightarrow> bool" where
  "is_digit c = (c \<in> set ''0123456789'')"

definition is_host_char :: "char \<Rightarrow> bool" where
  "is_host_char c =
     (c \<in> set ''abcdefghijklmnopqrstuvwxyz'' \<or> c \<in> set ''ABCDEFGHIJKLMNOPQRSTUVWXYZ''
      \<or> c \<in> set ''0123456789'' \<or> c = CHR ''-'' \<or> c = CHR ''.'')"

definition skip_colon :: "string \<Rightarrow> string" where
  "skip_colon s = (case s of [] \<Rightarrow> [] | c # cs \<Rightarrow> if c = CHR '':'' then cs else c # cs)"

definition re_match :: "string \<Rightarrow> (string \<times> string option) option" where
  "re_match netloc =
     (let host = takeWhile is_host_char netloc;
          ds = take 5 (takeWhile is_digit (skip_colon (dropWhile is_host_char netloc)))
      in if host = [] then None
         else Some (host, if 2 \<le> length ds then Some ds else None))"

text \<open>
  \<^verbatim>\<open>int(port)\<close> on a group of the match: \<^verbatim>\<open>int(None)\<close> raises \<^verbatim>\<open>TypeError\<close>; a string of
  decimal digits (all the port group can hold) is read in base ten.
\<close>

definition digit_val :: "char \<Rightarrow> int" where
  "digit_val c = int (length (takeWhile (\<lambda>d. d \<noteq> c) ''0123456789''))"

definition dec :: "string \<Rightarrow> int" where
  "dec ds = foldl (\<lambda>a c. 10 * a + digit_val c) 0 ds"

definition py_int :: "string option \<Rightarrow> error + int" where
  "py_int port = (case port of None \<Rightarrow> Inl TypeError | Some ds \<Rightarrow> Inr (dec ds))"

subsection \<open>The environment\<close>

datatype conn = ControlPlane | DataPlane

record request =
  rq_host :: string
  rq_port :: int
  rq_method :: string
  rq_path :: string
  rq_body :: "string option"

text \<open>
  An \<^verbatim>\<open>HTTPResponse\<close>: \<open>resp_length\<close> is its \<^verbatim>\<open>length\<close> attribute (\<^verbatim>\<open>None\<close> when the
  response announces no body length), \<open>msg\<close> its headers keyed by lower-case name (true
  in a condition when it has at least one header), \<open>body\<close> what \<^verbatim>\<open>read()\<close> returns.
\<close>

record response =
  status :: int
  reason :: string
  resp_length :: "int option"
  msg :: "(string \<times> string) list"
  body :: string

text \<open>
  \<open>urlparse\<close> is Python's \<^verbatim>\<open>urlparse.urlparse\<close> (scheme, netloc, path, params, query,
  fragment); \<open>server c rq\<close> is the response the server gives on connection \<open>c\<close> of an
  operation to the request \<open>rq\<close> (transport is taken to succeed); \<open>json_loads\<close> is
  \<^verbatim>\<open>json.loads\<close>; \<open>zlib_decompress w d n\<close> is
  \<^verbatim>\<open>zlib.decompressobj(w).decompress(d, n)\<close>.
\<close>

record env =
  urlparse :: "string \<Rightarrow> error + (string \<times> string \<times> string \<times> string \<times> string \<times> string)"
  server :: "conn \<Rightarrow> request \<Rightarrow> response"
  json_loads :: "string \<Rightarrow> error + json"
  zlib_decompress :: "int \<Rightarrow> string \<Rightarrow> int \<Rightarrow> error + string"

subsection \<open>\<open>WebHDFS.parse_url\<close>\<close>

definition parse_url :: "env \<Rightarrow> string \<Rightarrow> error + (string \<times> int \<times> string \<times> string)" where
  "parse_url E url =
     (case urlparse E url of
        Inl e \<Rightarrow> Inl e
      | Inr (scheme, netloc, path, params, query, frag) \<Rightarrow>
          (case re_match netloc of
             None \<Rightarrow> Inl (Exception (''Invalid host and/or port: '' @ netloc))
           | Some (host, port) \<Rightarrow>
               (case py_int port of
                  Inl e \<Rightarrow> Inl e
                | Inr p \<Rightarrow> Inr (host, p, strip_slash path, query))))"

subsection \<open>The client, the local file system and what an operation leaves behind\<close>

definition WEBHDFS_CONTEXT_ROOT :: string where
  "WEBHDFS_CONTEXT_ROOT = ''/webhdfs/v1''"

definition ZLIB_WBITS :: int where
  "ZLIB_WBITS = 16"

record webhdfs =
  namenode_host :: string
  namenode_port :: int
  username :: string

text \<open>
  The local files: \<open>contents p\<close> is what \<^verbatim>\<open>open(p, "r").read()\<close> returns (\<open>None\<close> when the
  open raises \<^verbatim>\<open>IOError\<close>), \<open>writable p\<close> says whether \<^verbatim>\<open>open(p, "w")\<close> succeeds.
\<close>

record localfs =
  contents :: "string \<Rightarrow> string option"
  writable :: "string \<Rightarrow> bool"

text \<open>
  \<open>Sent c rq\<close>: connection \<open>c\<close> was opened by sending \<open>rq\<close> on it
  (\<^verbatim>\<open>HTTPConnection.request\<close> connects); \<open>Closed c\<close>: its \<^verbatim>\<open>close()\<close> was called.
\<close>

datatype event = Sent conn request | Closed conn

record 'a outcome =
  returned :: "error + 'a"
  trace :: "event list"
  disk :: localfs

fun open_conns :: "event list \<Rightarrow> conn list \<Rightarrow> conn list" where
  "open_conns [] cs = cs"
| "open_conns (Sent c rq # evs) cs = open_conns evs (cs @ [c])"
| "open_conns (Closed c # evs) cs = open_conns evs (removeAll c cs)"

definition left_open :: "event list \<Rightarrow> conn list" where
  "left_open evs = open_conns evs []"

fun data_requests :: "event list \<Rightarrow> request list" where
  "data_requests [] = []"
| "data_requests (Sent c rq # evs) =
     (if c = DataPlane then rq # data_requests evs else data_requests evs)"
| "data_requests (Closed c # evs) = data_requests evs"

text \<open>
  \<^verbatim>\<open>_NameNodeHTTPClient.__init__\<close>: the request it sends. The user name is appended to the
  path it is given; the caller's own \<^verbatim>\<open>url_path\<close> is not changed.
\<close>

definition NameNodeHTTPClient :: "string \<Rightarrow> string \<Rightarrow> string \<Rightarrow> int \<Rightarrow> string \<Rightarrow> request" where
  "NameNodeHTTPClient http_method url_path host port hdfs_username =
     \<lparr>rq_host = host, rq_port = port, rq_method = http_method,
      rq_path = url_path @ ''&user.name='' @ hdfs_username, rq_body = None\<rparr>"

text \<open>
  The control-plane call every operation makes:
  \<^verbatim>\<open>_NameNodeHTTPClient(m, url_path, self.namenode_host, self.namenode_port, self.username)\<close>.
\<close>

definition control_request :: "webhdfs \<Rightarrow> string \<Rightarrow> string \<Rightarrow> request" where
  "control_request self http_method url_path =
     NameNodeHTTPClient http_method url_path (namenode_host self) (namenode_port self)
       (username self)"

text \<open>\<^verbatim>\<open>response.msg[name]\<close>: a missing header raises \<^verbatim>\<open>KeyError\<close>.\<close>

definition msg_getitem :: "(string \<times> string) list \<Rightarrow> string \<Rightarrow> error + string" where
  "msg_getitem m name = (case map_of m name of None \<Rightarrow> Inl (KeyError name) | Some v \<Rightarrow> Inr v)"

subsection \<open>\<open>WebHDFS.copyfromlocal\<close>\<close>

text \<open>
  In \<^verbatim>\<open>ROOT + target_path + '?op=CREATE&overwrite=' + 'true' if overwrite else 'false'\<close>
  the conditional expression binds weaker than \<open>+\<close>: the whole concatenation is its first
  branch.
\<close>

definition copyfromlocal_url_path :: "string \<Rightarrow> bool \<Rightarrow> string" where
  "copyfromlocal_url_path target_path overwrite =
     (if overwrite then WEBHDFS_CONTEXT_ROOT @ target_path @ ''?op=CREATE&overwrite='' @ ''true''
      else ''false'')"

text \<open>
  The source file is read while the arguments of the data-plane \<^verbatim>\<open>request\<close> are evaluated,
  before anything is sent. The data-plane connection is closed before the body of its
  response is read; the read is taken to return the body.
\<close>

definition copyfromlocal ::
  "env \<Rightarrow> localfs \<Rightarrow> webhdfs \<Rightarrow> string \<Rightarrow> string \<Rightarrow> int \<Rightarrow> bool \<Rightarrow> json outcome" where
  "copyfromlocal E fs self source_path target_path replication overwrite =
     (let url_path = copyfromlocal_url_path target_path overwrite;
          rq = control_request self ''PUT'' url_path;
          response = server E ControlPlane rq
      in case msg_getitem (msg response) ''location'' of
           Inl e \<Rightarrow>
             \<lparr>returned = Inl e, trace = [Sent ControlPlane rq, Closed ControlPlane], disk = fs\<rparr>
         | Inr redirect_location \<Rightarrow>
             (case parse_url E redirect_location of
                Inl e \<Rightarrow>
                  \<lparr>returned = Inl e, trace = [Sent ControlPlane rq, Closed ControlPlane],
                   disk = fs\<rparr>
              | Inr (redirect_host, redirect_port, redirect_path, query) \<Rightarrow>
                  (case contents fs source_path of
                     None \<Rightarrow>
                       \<lparr>returned = Inl IOError,
                        trace = [Sent ControlPlane rq, Closed ControlPlane], disk = fs\<rparr>
                   | Some data \<Rightarrow>
                       (let rq2 = \<lparr>rq_host = redirect_host, rq_port = redirect_port,
                                   rq_method = ''PUT'',
                                   rq_path = redirect_path @ ''?'' @ query @ ''&replication=''
                                             @ str_int replication,
                                   rq_body = Some data\<rparr>;
                            response2 = server E DataPlane rq2
                        in \<lparr>returned = json_loads E (body response2),
                            trace = [Sent ControlPlane rq, Sent DataPlane rq2, Closed DataPlane,
                                     Closed ControlPlane],
                            disk = fs\<rparr>))))"

subsection \<open>\<open>WebHDFS.copytolocal\<close>\<close>

text \<open>
  The value returned is \<^verbatim>\<open>response.status\<close>; on the redirect branch \<^verbatim>\<open>response\<close> has been
  rebound to the data-plane response. When \<^verbatim>\<open>open(target_path, "w")\<close> raises on the
  redirect branch, \<^verbatim>\<open>fileDownloadClient.close()\<close> is not reached.
\<close>

definition copytolocal_url_path :: "string \<Rightarrow> string" where
  "copytolocal_url_path source_path =
     WEBHDFS_CONTEXT_ROOT @ source_path @ ''?op=OPEN&overwrite=true''"

definition copytolocal ::
  "env \<Rightarrow> localfs \<Rightarrow> webhdfs \<Rightarrow> string \<Rightarrow> string \<Rightarrow> int outcome" where
  "copytolocal E fs self source_path target_path =
     (let url_path = copytolocal_url_path source_path;
          rq = control_request self ''GET'' url_path;
          response = server E ControlPlane rq
      in if resp_length response \<noteq> None \<and> msg response \<noteq> [] then
           (case msg_getitem (msg response) ''location'' of
              Inl e \<Rightarrow>
                \<lparr>returned = Inl e, trace = [Sent ControlPlane rq, Closed ControlPlane],
                 disk = fs\<rparr>
            | Inr redirect_location \<Rightarrow>
                (case parse_url E redirect_location of
                   Inl e \<Rightarrow>
                     \<lparr>returned = Inl e, trace = [Sent ControlPlane rq, Closed ControlPlane],
                      disk = fs\<rparr>
                 | Inr (redirect_host, redirect_port, redirect_path, query) \<Rightarrow>
                     (let rq2 = \<lparr>rq_host = redirect_host, rq_port = redirect_port,
                                 rq_method = ''GET'', rq_path = redirect_path @ ''?'' @ query,
                                 rq_body = None\<rparr>;
                          response2 = server E DataPlane rq2
                      in if writable fs target_path then
                           \<lparr>returned = Inr (status response2),
                            trace = [Sent ControlPlane rq, Sent DataPlane rq2, Closed DataPlane,
                                     Closed ControlPlane],
                            disk = fs\<lparr>contents := (contents fs)(target_path \<mapsto> body response2)\<rparr>\<rparr>
                         else
                           \<lparr>returned = Inl IOError,
                            trace = [Sent ControlPlane rq, Sent DataPlane rq2,
                                     Closed ControlPlane],
                            disk = fs\<rparr>)))
         else if writable fs target_path then
           \<lparr>returned = Inr (status response),
            trace = [Sent ControlPlane rq, Closed ControlPlane],
            disk = fs\<lparr>contents := (contents fs)(target_path \<mapsto> '''')\<rparr>\<rparr>
         else
           \<lparr>returned = Inl IOError, trace = [Sent ControlPlane rq, Closed ControlPlane],
            disk = fs\<rparr>)"

subsection \<open>\<open>WebHDFS.readfile\<close>\<close>

text \<open>
  The result is \<open>Some\<close> of the bytes returned, or \<open>None\<close> for Python's \<^verbatim>\<open>None\<close>: the function
  has no \<^verbatim>\<open>else\<close> branch and no \<^verbatim>\<open>return\<close> after the \<^verbatim>\<open>with\<close> block. The second request is
  made by \<^verbatim>\<open>_NameNodeHTTPClient('GET', url_path, redirect_host, redirect_port, ...)\<close>:
  the path it is given is \<^verbatim>\<open>url_path\<close>; \<^verbatim>\<open>redirect_path\<close> is computed and only logged.
\<close>

definition readfile_url_path :: "string \<Rightarrow> int \<Rightarrow> int \<Rightarrow> int \<Rightarrow> string" where
  "readfile_url_path source_path offset len buffersize =
     WEBHDFS_CONTEXT_ROOT @ source_path @ ''?op=OPEN&offset='' @ str_int offset
     @ ''&length='' @ str_int len @ ''&buffersize='' @ str_int buffersize"

definition readfile ::
  "env \<Rightarrow> localfs \<Rightarrow> webhdfs \<Rightarrow> string \<Rightarrow> int \<Rightarrow> int \<Rightarrow> int \<Rightarrow> string option outcome" where
  "readfile E fs self source_path offset len buffersize =
     (let url_path = readfile_url_path source_path offset len buffersize;
          rq = control_request self ''GET'' url_path;
          response = server E ControlPlane rq
      in if resp_length response \<noteq> None \<and> msg response \<noteq> [] then
           (case msg_getitem (msg response) ''location'' of
              Inl e \<Rightarrow>
                \<lparr>returned = Inl e, trace = [Sent ControlPlane rq, Closed ControlPlane],
                 disk = fs\<rparr>
            | Inr redirect_location \<Rightarrow>
                (case parse_url E redirect_location of
                   Inl e \<Rightarrow>
                     \<lparr>returned = Inl e, trace = [Sent ControlPlane rq, Closed ControlPlane],
                      disk = fs\<rparr>
                 | Inr (redirect_host, redirect_port, redirect_path, query) \<Rightarrow>
                     (let rq2 = NameNodeHTTPClient ''GET'' url_path redirect_host redirect_port
                                  (username self);
                          redirect_response = server E DataPlane rq2
                      in \<lparr>returned =
                            (if endswith source_path ''.gz'' then
                               (case zlib_decompress E ZLIB_WBITS (body redirect_response) len of
                                  Inl e \<Rightarrow> Inl e
                                | Inr data \<Rightarrow> Inr (Some data))
                             else Inr (Some (body redirect_response))),
                          trace = [Sent ControlPlane rq, Sent DataPlane rq2, Closed DataPlane,
                                   Closed ControlPlane],
                          disk = fs\<rparr>)))
         else
           \<lparr>returned = Inr None, trace = [Sent ControlPlane rq, Closed ControlPlane],
            disk = fs\<rparr>)"

subsection \<open>\<open>WebHDFS.listdir\<close>\<close>

text \<open>\<^verbatim>\<open>x[key]\<close> with a string key: only a dict has one; a missing key raises \<^verbatim>\<open>KeyError\<close>.\<close>

definition subscript :: "json \<Rightarrow> string \<Rightarrow> error + json" where
  "subscript x key =
     (case x of
        JDict kvs \<Rightarrow> (case map_of kvs key of None \<Rightarrow> Inl (KeyError key) | Some v \<Rightarrow> Inr v)
      | _ \<Rightarrow> Inl TypeError)"

text \<open>
  \<^verbatim>\<open>for i in x\<close>: the elements of a list, the keys of a dict, the characters of a string;
  anything else is not iterable.
\<close>

definition py_iter :: "json \<Rightarrow> error + json list" where
  "py_iter x =
     (case x of
        JList xs \<Rightarrow> Inr xs
      | JDict kvs \<Rightarrow> Inr (map (\<lambda>kv. JStr (fst kv)) kvs)
      | JStr s \<Rightarrow> Inr (map (\<lambda>c. JStr [c]) s)
      | _ \<Rightarrow> Inl TypeError)"

text \<open>
  The loop body. The logged string \<^verbatim>\<open>i["type"] + ": " + i["pathSuffix"]\<close> is built first
  and raises \<^verbatim>\<open>TypeError\<close> unless both values are strings.
\<close>

fun listdir_loop ::
  "json list \<Rightarrow> (json \<times> json \<times> json) list \<Rightarrow> error + (json \<times> json \<times> json) list" where
  "listdir_loop [] files = Inr files"
| "listdir_loop (i # rest) files =
     (case subscript i ''type'' of
        Inl e \<Rightarrow> Inl e
      | Inr t \<Rightarrow>
          (case t of
             JStr a \<Rightarrow>
               (case subscript i ''pathSuffix'' of
                  Inl e \<Rightarrow> Inl e
                | Inr p \<Rightarrow>
                    (case p of
                       JStr b \<Rightarrow>
                         (case subscript i ''length'' of
                            Inl e \<Rightarrow> Inl e
                          | Inr l \<Rightarrow> listdir_loop rest (files @ [(p, l, t)]))
                     | _ \<Rightarrow> Inl TypeError))
           | _ \<Rightarrow> Inl TypeError))"

definition listdir_url_path :: "string \<Rightarrow> string" where
  "listdir_url_path path = WEBHDFS_CONTEXT_ROOT @ path @ ''?op=LISTSTATUS''"

definition listdir ::
  "env \<Rightarrow> localfs \<Rightarrow> webhdfs \<Rightarrow> string \<Rightarrow> (json \<times> json \<times> json) list outcome" where
  "listdir E fs self path =
     (let url_path = listdir_url_path path;
          rq = control_request self ''GET'' url_path;
          response = server E ControlPlane rq
      in \<lparr>returned =
            (case json_loads E (body response) of
               Inl e \<Rightarrow> Inl e
             | Inr data_dict \<Rightarrow>
                 (case subscript data_dict ''FileStatuses'' of
                    Inl e \<Rightarrow> Inl e
                  | Inr statuses \<Rightarrow>
                      (case subscript statuses ''FileStatus'' of
                         Inl e \<Rightarrow> Inl e
                       | Inr status_list \<Rightarrow>
                           (case py_iter status_list of
                              Inl e \<Rightarrow> Inl e
                            | Inr items \<Rightarrow> listdir_loop items [])))),
          trace = [Sent ControlPlane rq, Closed ControlPlane],
          disk = fs\<rparr>)"

subsection \<open>A small deployment used for the concrete runs\<close>

text \<open>
  One NameNode, one DataNode \<open>dn1\<close>. \<open>demo_urlparse\<close> lists what \<^verbatim>\<open>urlparse\<close> returns for the
  three redirect locations used below (other URLs are not used): the network location is
  what stands between \<open>//\<close> and the next \<open>/\<close>.
\<close>

definition demo_client :: webhdfs where
  "demo_client = \<lparr>namenode_host = ''namenode'', namenode_port = 50070, username = ''hadoop''\<rparr>"

definition demo_urlparse ::
  "string \<Rightarrow> error + (string \<times> string \<times> string \<times> string \<times> string \<times> string)" where
  "demo_urlparse url =
     (if url = ''http://dn1:50075/webhdfs/v1/f?op=OPEN'' then
        Inr (''http'', ''dn1:50075'', ''/webhdfs/v1/f'', '''', ''op=OPEN'', '''')
      else if url = ''http://dn1:50075 x/webhdfs/v1/f?op=OPEN'' then
        Inr (''http'', ''dn1:50075 x'', ''/webhdfs/v1/f'', '''', ''op=OPEN'', '''')
      else if url = ''http://dn1/webhdfs/v1/f?op=OPEN'' then
        Inr (''http'', ''dn1'', ''/webhdfs/v1/f'', '''', ''op=OPEN'', '''')
      else Inr ('''', '''', url, '''', '''', ''''))"

definition redirect_to :: "string \<Rightarrow> response" where
  "redirect_to location =
     \<lparr>status = 307, reason = ''TEMPORARY_REDIRECT'', resp_length = Some 0,
      msg = [(''location'', location), (''content-length'', ''0'')], body = ''''\<rparr>"

definition empty_file_response :: response where
  "empty_file_response =
     \<lparr>status = 200, reason = ''OK'', resp_length = None, msg = [], body = ''''\<rparr>"

definition no_location_response :: response where
  "no_location_response =
     \<lparr>status = 404, reason = ''Not Found'', resp_length = Some 9,
      msg = [(''content-length'', ''9'')], body = ''not found''\<rparr>"

definition data_response :: response where
  "data_response =
     \<lparr>status = 200, reason = ''OK'', resp_length = Some 11,
      msg = [(''content-length'', ''11'')], body = ''hello world''\<rparr>"

definition demo_listing :: json where
  "demo_listing =
     JDict [(''FileStatuses'', JDict [(''FileStatus'', JList
       [JDict [(''pathSuffix'', JStr ''a.txt''), (''length'', JInt 10), (''type'', JStr ''FILE'')],
        JDict [(''pathSuffix'', JStr ''sub''), (''length'', JInt 0),
               (''type'', JStr ''DIRECTORY'')]])])]"

definition demo_env :: "response \<Rightarrow> env" where
  "demo_env control =
     \<lparr>urlparse = demo_urlparse,
      server = (\<lambda>c rq. case c of ControlPlane \<Rightarrow> control | DataPlane \<Rightarrow> data_response),
      json_loads = (\<lambda>s. Inr demo_listing),
      zlib_decompress = (\<lambda>w d n. Inl ZlibError)\<rparr>"

definition demo_fs :: localfs where
  "demo_fs =
     \<lparr>contents = [''/tmp/in.txt'' \<mapsto> ''payload''],
      writable = (\<lambda>p. p = ''/tmp/out.txt'')\<rparr>"

section \<open>Facts about the model\<close>

lemmas demo_defs = demo_client_def demo_urlparse_def redirect_to_def data_response_def
  demo_env_def demo_fs_def

lemmas parse_defs = parse_url_def re_match_def is_host_char_def is_digit_def skip_colon_def
  py_int_def dec_def digit_val_def strip_slash_def

lemmas client_defs = control_request_def NameNodeHTTPClient_def msg_getitem_def
  WEBHDFS_CONTEXT_ROOT_def

subsection \<open>What \<open>parse_url\<close> does with a network location\<close>

lemma is_host_char_colon: "\<not> is_host_char CHR '':''"
  by (simp add: is_host_char_def)

lemma re_match_host_only:
  assumes "host \<noteq> []" and "list_all is_host_char host"
  shows "re_match host = Some (host, None)"
proof -
  from assms(2) have t: "takeWhile is_host_char host = host"
    by (simp add: list_all_iff)
  from assms(2) have d: "dropWhile is_host_char host = []"
    by (simp add: list_all_iff)
  show ?thesis
    unfolding re_match_def t d using assms(1) by (simp add: skip_colon_def)
qed

lemma re_match_host_port:
  assumes "host \<noteq> []" and "list_all is_host_char host"
    and "list_all is_digit port" and "2 \<le> length port" and "length port \<le> 5"
  shows "re_match (host @ '':'' @ port) = Some (host, Some port)"
proof -
  from assms(2) have t: "takeWhile is_host_char (host @ '':'' @ port) = host"
    by (simp add: list_all_iff is_host_char_colon)
  from assms(2) have d: "dropWhile is_host_char (host @ '':'' @ port) = '':'' @ port"
    by (simp add: list_all_iff is_host_char_colon)
  from assms(3) have p: "takeWhile is_digit port = port"
    by (simp add: list_all_iff)
  show ?thesis
    unfolding re_match_def t d using assms(1,4,5) by (simp add: skip_colon_def p)
qed

text \<open>
  A well-formed \<open>host:port\<close> is split as expected; a well-formed host with no port makes
  \<^verbatim>\<open>int(None)\<close> raise; the \<^verbatim>\<open>Exception\<close> of \<open>parse_url\<close> is raised only when the network
  location is empty or starts with a character outside the host alphabet.
\<close>

lemma parse_url_with_port:
  assumes "urlparse E url = Inr (scheme, host @ '':'' @ port, path, params, query, frag)"
    and "host \<noteq> []" and "list_all is_host_char host"
    and "list_all is_digit port" and "2 \<le> length port" and "length port \<le> 5"
  shows "parse_url E url = Inr (host, dec port, strip_slash path, query)"
  using assms(1) re_match_host_port [OF assms(2-6)]
  by (simp add: parse_url_def py_int_def)

lemma parse_url_without_port:
  assumes "urlparse E url = Inr (scheme, host, path, params, query, frag)"
    and "host \<noteq> []" and "list_all is_host_char host"
  shows "parse_url E url = Inl TypeError"
  using assms(1) re_match_host_only [OF assms(2,3)]
  by (simp add: parse_url_def py_int_def)

lemma parse_url_invalid_host_iff:
  assumes "urlparse E url = Inr (scheme, netloc, path, params, query, frag)"
  shows "(\<exists>m. parse_url E url = Inl (Exception m))
         = (netloc = [] \<or> \<not> is_host_char (hd netloc))"
  using assms
  by (cases netloc) (auto simp: parse_url_def re_match_def py_int_def Let_def split: option.splits)

subsection \<open>What \<open>readfile\<close> does after a redirect\<close>

text \<open>
  The second request goes to the host and port of the redirect, with the path of the first
  request; the value returned is the body of its response, passed through
  \<^verbatim>\<open>zlib.decompressobj(16).decompress(body, length)\<close> when the source path ends in \<open>.gz\<close>.
\<close>

lemma readfile_data_request:
  assumes "resp_length (server E ControlPlane
             (control_request self ''GET'' (readfile_url_path source_path offset len buffersize)))
           \<noteq> None"
    and "map_of (msg (server E ControlPlane
             (control_request self ''GET'' (readfile_url_path source_path offset len buffersize))))
           ''location'' = Some location"
    and "parse_url E location = Inr (h, p, path, query)"
  shows "data_requests (trace (readfile E fs self source_path offset len buffersize)) =
           [\<lparr>rq_host = h, rq_port = p, rq_method = ''GET'',
             rq_path = readfile_url_path source_path offset len buffersize
                       @ ''&user.name='' @ username self,
             rq_body = None\<rparr>]"
proof -
  let ?r = "server E ControlPlane
             (control_request self ''GET'' (readfile_url_path source_path offset len buffersize))"
  from assms(2) have "msg ?r \<noteq> []" by auto
  with assms show ?thesis
    by (simp add: readfile_def Let_def msg_getitem_def NameNodeHTTPClient_def)
qed

lemma readfile_payload:
  assumes "resp_length (server E ControlPlane
             (control_request self ''GET'' (readfile_url_path source_path offset len buffersize)))
           \<noteq> None"
    and "map_of (msg (server E ControlPlane
             (control_request self ''GET'' (readfile_url_path source_path offset len buffersize))))
           ''location'' = Some location"
    and "parse_url E location = Inr (h, p, path, query)"
  shows "returned (readfile E fs self source_path offset len buffersize) =
           (let payload = body (server E DataPlane
                  (NameNodeHTTPClient ''GET''
                     (readfile_url_path source_path offset len buffersize) h p (username self)))
            in if endswith source_path ''.gz'' then
                 (case zlib_decompress E 16 payload len of
                    Inl e \<Rightarrow> Inl e | Inr data \<Rightarrow> Inr (Some data))
               else Inr (Some payload))"
proof -
  let ?r = "server E ControlPlane
             (control_request self ''GET'' (readfile_url_path source_path offset len buffersize))"
  from assms(2) have "msg ?r \<noteq> []" by auto
  with assms show ?thesis
    by (simp add: readfile_def Let_def msg_getitem_def ZLIB_WBITS_def)
qed

subsection \<open>The branch taken when the response has no body length\<close>

lemma readfile_no_length:
  assumes "resp_length (server E ControlPlane
             (control_request self ''GET'' (readfile_url_path source_path offset len buffersize)))
           = None"
  shows "readfile E fs self source_path offset len buffersize =
           \<lparr>returned = Inr None,
            trace = [Sent ControlPlane
                       (control_request self ''GET''
                          (readfile_url_path source_path offset len buffersize)),
                     Closed ControlPlane],
            disk = fs\<rparr>"
  using assms by (simp add: readfile_def Let_def)

lemma copytolocal_no_length:
  assumes "resp_length (server E ControlPlane
             (control_request self ''GET'' (copytolocal_url_path source_path))) = None"
    and "writable fs target_path"
  shows "copytolocal E fs self source_path target_path =
           \<lparr>returned = Inr (status (server E ControlPlane
                         (control_request self ''GET'' (copytolocal_url_path source_path)))),
            trace = [Sent ControlPlane
                       (control_request self ''GET'' (copytolocal_url_path source_path)),
                     Closed ControlPlane],
            disk = fs\<lparr>contents := (contents fs)(target_path \<mapsto> '''')\<rparr>\<rparr>"
  using assms by (simp add: copytolocal_def Let_def)

subsection \<open>Connections left open\<close>

text \<open>
  With a transport that does not fail, \<open>readfile\<close>, \<open>copyfromlocal\<close> and \<open>listdir\<close> close
  what they open; \<open>copytolocal\<close> leaves its data-plane connection open exactly when it
  has sent the data-plane request and the local target cannot be opened.
\<close>

lemma readfile_closes_all:
  "left_open (trace (readfile E fs self source_path offset len buffersize)) = []"
  by (simp add: readfile_def Let_def left_open_def split: sum.split prod.split)

lemma copyfromlocal_closes_all:
  "left_open (trace (copyfromlocal E fs self source_path target_path replication overwrite)) = []"
  by (simp add: copyfromlocal_def Let_def left_open_def split: sum.split prod.split option.split)

lemma listdir_closes_all:
  "left_open (trace (listdir E fs self path)) = []"
  by (simp add: listdir_def Let_def left_open_def)

lemma copytolocal_left_open:
  "left_open (trace (copytolocal E fs self source_path target_path)) =
     (if data_requests (trace (copytolocal E fs self source_path target_path)) \<noteq> []
         \<and> \<not> writable fs target_path
      then [DataPlane] else [])"
  by (simp add: copytolocal_def Let_def left_open_def split: sum.split prod.split)

subsection \<open>The loop of \<open>listdir\<close>\<close>

lemma listdir_loop_triples:
  assumes "list_all2 (\<lambda>i (name, len, ty). \<exists>kvs a b. i = JDict kvs
              \<and> map_of kvs ''pathSuffix'' = Some name \<and> name = JStr a
              \<and> map_of kvs ''length'' = Some len
              \<and> map_of kvs ''type'' = Some ty \<and> ty = JStr b) entries triples"
  shows "listdir_loop entries files = Inr (files @ triples)"
  using assms
proof (induction entries triples arbitrary: files rule: list_all2_induct)
  case Nil
  show ?case by simp
next
  case (Cons i entries t triples)
  obtain name len ty where t: "t = (name, len, ty)" by (cases t)
  with Cons.hyps(1) obtain kvs a b where
    "i = JDict kvs" "map_of kvs ''pathSuffix'' = Some (JStr a)" "name = JStr a"
    "map_of kvs ''length'' = Some len" "map_of kvs ''type'' = Some (JStr b)" "ty = JStr b"
    by auto
  then show ?case
    using Cons.IH [of "files @ [(name, len, ty)]"] t
    by (simp add: subscript_def)
qed

section \<open>The claims\<close>

text \<open>
  Claim C1: for every call to \<open>copyfromlocal\<close>, the control-plane request is a PUT whose
  query contains \<open>op=CREATE\<close> and \<open>overwrite=true\<close> when the overwrite argument is true, and
  \<open>op=CREATE\<close> and \<open>overwrite=false\<close> when it is false.

  The first half holds. With overwrite false the path sent is \<open>false&user.name=<user>\<close>:
  it names neither the target nor \<open>op=CREATE\<close>.
\<close>

theorem copyfromlocal_control_request:
  "(\<exists>evs. trace (copyfromlocal E fs self source_path target_path replication True) =
      Sent ControlPlane
        \<lparr>rq_host = namenode_host self, rq_port = namenode_port self, rq_method = ''PUT'',
         rq_path = ''/webhdfs/v1'' @ target_path @ ''?op=CREATE&overwrite=true&user.name=''
                   @ username self,
         rq_body = None\<rparr> # evs)
   \<and> (\<exists>evs. trace (copyfromlocal E fs self source_path target_path replication False) =
      Sent ControlPlane
        \<lparr>rq_host = namenode_host self, rq_port = namenode_port self, rq_method = ''PUT'',
         rq_path = ''false&user.name='' @ username self,
         rq_body = None\<rparr> # evs)"
  by (simp add: copyfromlocal_def copyfromlocal_url_path_def client_defs Let_def
      split: sum.split option.split prod.split)

text \<open>
  Claim C2: after a redirect, \<open>readfile\<close> issues its data-plane GET against the redirect
  target's path (slashes stripped) with the redirect's query reattached, not against the
  original control-plane path.

  The code sends the original path: redirected to
  \<open>http://dn1:50075/webhdfs/v1/f?op=OPEN\<close>, it asks \<open>dn1:50075\<close> for the path of its first
  request, not for \<open>webhdfs/v1/f?op=OPEN\<close>.
\<close>

theorem readfile_follow_up_request:
  "data_requests (trace (readfile (demo_env (redirect_to ''http://dn1:50075/webhdfs/v1/f?op=OPEN''))
      demo_fs demo_client ''/f'' 0 10000 10000)) =
     [\<lparr>rq_host = ''dn1'', rq_port = 50075, rq_method = ''GET'',
       rq_path = ''/webhdfs/v1/f?op=OPEN&offset=0&length=10000&buffersize=10000&user.name=hadoop'',
       rq_body = None\<rparr>]"
  by (simp add: readfile_def readfile_url_path_def client_defs Let_def parse_defs demo_defs
      str_int_def str_nat.simps)

text \<open>
  Claim C3: for every malformed network location (one with a space, or with characters
  outside the host alphabet and the optional port), \<open>parse_url\<close> fails with its
  malformed-redirect error and no request goes to a DataNode.

  The expression is matched at the start of the string only. The network location
  \<open>dn1:50075 x\<close> is accepted as host \<open>dn1\<close>, port 50075, and \<open>copytolocal\<close> sends its
  data-plane request there.
\<close>

theorem parse_url_accepts_malformed_netloc:
  "parse_url (demo_env (redirect_to ''http://dn1:50075 x/webhdfs/v1/f?op=OPEN''))
     ''http://dn1:50075 x/webhdfs/v1/f?op=OPEN''
     = Inr (''dn1'', 50075, ''webhdfs/v1/f'', ''op=OPEN'')
   \<and> data_requests (trace (copytolocal
        (demo_env (redirect_to ''http://dn1:50075 x/webhdfs/v1/f?op=OPEN''))
        demo_fs demo_client ''/f'' ''/tmp/out.txt'')) =
     [\<lparr>rq_host = ''dn1'', rq_port = 50075, rq_method = ''GET'',
       rq_path = ''webhdfs/v1/f?op=OPEN'', rq_body = None\<rparr>]"
  by (simp add: copytolocal_def copytolocal_url_path_def client_defs Let_def parse_defs demo_defs)

text \<open>
  Claim C4: for every valid \<open>host[:port]\<close>, \<open>parse_url\<close> returns the host and the port, and
  with no port it returns a result that says so, without crashing.

  With a port the result is right (\<open>parse_url_with_port\<close>). With none, the port group of the
  match is \<^verbatim>\<open>None\<close> and \<^verbatim>\<open>int(None)\<close> raises \<^verbatim>\<open>TypeError\<close>: for the location
  \<open>http://dn1/webhdfs/v1/f?op=OPEN\<close> nothing is returned.
\<close>

theorem parse_url_missing_port:
  "parse_url (demo_env r) ''http://dn1/webhdfs/v1/f?op=OPEN'' = Inl TypeError"
  by (simp add: parse_defs demo_defs)

text \<open>
  Claim C5: when the control-plane response signals an empty file (no body length, no
  Location header), \<open>copytolocal\<close> and \<open>readfile\<close> make no data-plane request;
  \<open>copytolocal\<close> writes a zero-byte file and \<open>readfile\<close> returns an empty byte sequence.

  No data-plane request is made and \<open>copytolocal\<close> writes the empty file, but \<open>readfile\<close>
  falls off the end of the function: it returns \<^verbatim>\<open>None\<close>, not the empty string.
\<close>

theorem empty_file_results:
  "returned (readfile (demo_env empty_file_response) demo_fs demo_client ''/f'' 0 10000 10000)
     = Inr None
   \<and> data_requests (trace (readfile (demo_env empty_file_response) demo_fs demo_client
        ''/f'' 0 10000 10000)) = []
   \<and> data_requests (trace (copytolocal (demo_env empty_file_response) demo_fs demo_client
        ''/f'' ''/tmp/out.txt'')) = []
   \<and> contents (disk (copytolocal (demo_env empty_file_response) demo_fs demo_client
        ''/f'' ''/tmp/out.txt'')) ''/tmp/out.txt'' = Some ''''"
  by (simp add: readfile_def copytolocal_def Let_def demo_defs empty_file_response_def)

text \<open>
  Claim C7: when the control-plane response of \<open>copyfromlocal\<close> carries a redirect,
  \<open>&replication=<n>\<close> is appended to the redirect's query before the data-plane PUT is
  issued, so the path of that request contains it.

  Whenever the response has a Location header, the data-plane requests of the call are
  these: none when the location does not parse or the source file cannot be read, and
  otherwise one PUT to the redirect's host and port whose path is the redirect's path, a
  question mark, its query and \<open>&replication=<n>\<close>.
\<close>

theorem copyfromlocal_replication_appended:
  assumes "map_of (msg (server E ControlPlane
             (control_request self ''PUT'' (copyfromlocal_url_path target_path overwrite))))
           ''location'' = Some location"
  shows "data_requests
           (trace (copyfromlocal E fs self source_path target_path replication overwrite)) =
         (case parse_url E location of
            Inl e \<Rightarrow> []
          | Inr (h, p, path, query) \<Rightarrow>
              (case contents fs source_path of
                 None \<Rightarrow> []
               | Some data \<Rightarrow>
                   [\<lparr>rq_host = h, rq_port = p, rq_method = ''PUT'',
                     rq_path = path @ ''?'' @ query @ ''&replication='' @ str_int replication,
                     rq_body = Some data\<rparr>]))"
  using assms
  by (simp add: copyfromlocal_def Let_def msg_getitem_def split: sum.split option.split)

theorem copyfromlocal_replication_appended_witness:
  "data_requests (trace (copyfromlocal
      (demo_env (redirect_to ''http://dn1:50075/webhdfs/v1/f?op=OPEN'')) demo_fs demo_client
      ''/tmp/in.txt'' ''/f'' 3 True)) =
     [\<lparr>rq_host = ''dn1'', rq_port = 50075, rq_method = ''PUT'',
       rq_path = ''webhdfs/v1/f?op=OPEN&replication=3'', rq_body = Some ''payload''\<rparr>]"
proof -
  let ?E = "demo_env (redirect_to ''http://dn1:50075/webhdfs/v1/f?op=OPEN'')"
  have h: "map_of (msg (server ?E ControlPlane
             (control_request demo_client ''PUT'' (copyfromlocal_url_path ''/f'' True))))
           ''location'' = Some ''http://dn1:50075/webhdfs/v1/f?op=OPEN''"
    by (simp add: demo_env_def redirect_to_def)
  have p: "parse_url ?E ''http://dn1:50075/webhdfs/v1/f?op=OPEN''
             = Inr (''dn1'', 50075, ''webhdfs/v1/f'', ''op=OPEN'')"
    by (simp add: parse_defs demo_env_def demo_urlparse_def)
  have c: "contents demo_fs ''/tmp/in.txt'' = Some ''payload''"
    by (simp add: demo_fs_def)
  have s: "str_int 3 = ''3''"
    by (simp add: str_int_def str_nat.simps)
  show ?thesis
    using copyfromlocal_replication_appended [OF h, of demo_fs "''/tmp/in.txt''" 3]
    by (simp add: p c s)
qed

text \<open>
  Claim C8: when the response body of \<open>listdir\<close> holds a \<open>FileStatuses.FileStatus\<close> array, the
  result is exactly the sequence of (pathSuffix, length, type) triples, one per element of
  the array and in its order; entries \<open>a.txt\<close> (10 bytes, FILE) and \<open>sub\<close> (0 bytes,
  DIRECTORY) give \<open>("a.txt", 10, "FILE")\<close> and \<open>("sub", 0, "DIRECTORY")\<close>.

  An element of the array is a dict with the three keys whose \<open>pathSuffix\<close> and \<open>type\<close>
  are strings, as the service's FileStatus objects are.
\<close>

theorem listdir_triples:
  assumes "json_loads E (body (server E ControlPlane
             (control_request self ''GET'' (listdir_url_path path)))) = Inr data_dict"
    and "subscript data_dict ''FileStatuses'' = Inr statuses"
    and "subscript statuses ''FileStatus'' = Inr (JList entries)"
    and "list_all2 (\<lambda>i (name, len, ty). \<exists>kvs a b. i = JDict kvs
              \<and> map_of kvs ''pathSuffix'' = Some name \<and> name = JStr a
              \<and> map_of kvs ''length'' = Some len
              \<and> map_of kvs ''type'' = Some ty \<and> ty = JStr b) entries triples"
  shows "returned (listdir E fs self path) = Inr triples"
  using assms(1-3) listdir_loop_triples [OF assms(4), of "[]"]
  by (simp add: listdir_def Let_def py_iter_def)

theorem listdir_triples_witness:
  "returned (listdir (demo_env data_response) demo_fs demo_client ''/d'') =
     Inr [(JStr ''a.txt'', JInt 10, JStr ''FILE''), (JStr ''sub'', JInt 0, JStr ''DIRECTORY'')]"
proof -
  let ?E = "demo_env data_response"
  let ?entries =
    "[JDict [(''pathSuffix'', JStr ''a.txt''), (''length'', JInt 10), (''type'', JStr ''FILE'')],
      JDict [(''pathSuffix'', JStr ''sub''), (''length'', JInt 0),
             (''type'', JStr ''DIRECTORY'')]]"
  have h1: "json_loads ?E (body (server ?E ControlPlane
             (control_request demo_client ''GET'' (listdir_url_path ''/d'')))) = Inr demo_listing"
    by (simp add: demo_env_def)
  have h2: "subscript demo_listing ''FileStatuses'' = Inr (JDict [(''FileStatus'', JList ?entries)])"
    by (simp add: subscript_def demo_listing_def)
  have h3: "subscript (JDict [(''FileStatus'', JList ?entries)]) ''FileStatus''
              = Inr (JList ?entries)"
    by (simp add: subscript_def)
  have h4: "list_all2 (\<lambda>i (name, len, ty). \<exists>kvs a b. i = JDict kvs
              \<and> map_of kvs ''pathSuffix'' = Some name \<and> name = JStr a
              \<and> map_of kvs ''length'' = Some len
              \<and> map_of kvs ''type'' = Some ty \<and> ty = JStr b) ?entries
            [(JStr ''a.txt'', JInt 10, JStr ''FILE''), (JStr ''sub'', JInt 0, JStr ''DIRECTORY'')]"
    by simp
  show ?thesis
    by (rule listdir_triples [OF h1 h2 h3 h4])
qed

text \<open>
  Claim C9: every connection an operation opens, control-plane or data-plane, is closed on
  every exit path, on normal return and when an exception is raised.

  In \<open>copytolocal\<close> the data-plane connection is closed by a call at the end of the
  branch, not by a scoped construct. When the local target cannot be opened for writing,
  \<^verbatim>\<open>IOError\<close> leaves the function after the data-plane request and before that call: the
  data-plane connection stays open.
\<close>

theorem copytolocal_leaves_data_connection_open:
  "returned (copytolocal (demo_env (redirect_to ''http://dn1:50075/webhdfs/v1/f?op=OPEN''))
      demo_fs demo_client ''/f'' ''/nodir/out.txt'') = Inl IOError
   \<and> left_open (trace (copytolocal (demo_env (redirect_to ''http://dn1:50075/webhdfs/v1/f?op=OPEN''))
      demo_fs demo_client ''/f'' ''/nodir/out.txt'')) = [DataPlane]"
  by (simp add: copytolocal_def copytolocal_url_path_def client_defs Let_def parse_defs demo_defs
      left_open_def)

text \<open>
  Claim C10: a control-plane response that has a body length but no \<open>location\<close> header makes
  \<open>copyfromlocal\<close>, \<open>copytolocal\<close> and \<open>readfile\<close> raise a key-lookup error:
  \<open>copyfromlocal\<close> reads the header unconditionally, and \<open>copytolocal\<close> and \<open>readfile\<close>
  take the redirect branch whenever the body length is present and the header mapping is
  not empty, whether or not it has a \<open>location\<close> key.
\<close>

theorem missing_location_key_error:
  "(map_of (msg (server E ControlPlane
       (control_request self ''PUT'' (copyfromlocal_url_path target_path overwrite))))
      ''location'' = None
    \<longrightarrow> returned (copyfromlocal E fs self local_source target_path replication overwrite)
          = Inl (KeyError ''location''))
   \<and> (resp_length (server E ControlPlane
          (control_request self ''GET'' (copytolocal_url_path source_path))) \<noteq> None
      \<and> msg (server E ControlPlane
          (control_request self ''GET'' (copytolocal_url_path source_path))) \<noteq> []
      \<and> map_of (msg (server E ControlPlane
          (control_request self ''GET'' (copytolocal_url_path source_path)))) ''location'' = None
    \<longrightarrow> returned (copytolocal E fs self source_path local_target) = Inl (KeyError ''location''))
   \<and> (resp_length (server E ControlPlane
          (control_request self ''GET'' (readfile_url_path source_path offset len buffersize)))
        \<noteq> None
      \<and> msg (server E ControlPlane
          (control_request self ''GET'' (readfile_url_path source_path offset len buffersize)))
        \<noteq> []
      \<and> map_of (msg (server E ControlPlane
          (control_request self ''GET'' (readfile_url_path source_path offset len buffersize))))
        ''location'' = None
    \<longrightarrow> returned (readfile E fs self source_path offset len buffersize)
          = Inl (KeyError ''location''))"
  by (simp add: copyfromlocal_def copytolocal_def readfile_def Let_def msg_getitem_def)

theorem missing_location_key_error_witness:
  "returned (copyfromlocal (demo_env no_location_response) demo_fs demo_client
      ''/tmp/in.txt'' ''/f'' 1 True) = Inl (KeyError ''location'')
   \<and> returned (copytolocal (demo_env no_location_response) demo_fs demo_client
      ''/f'' ''/tmp/out.txt'') = Inl (KeyError ''location'')
   \<and> returned (readfile (demo_env no_location_response) demo_fs demo_client
      ''/f'' 0 10000 10000) = Inl (KeyError ''location'')"
  using missing_location_key_error [where E = "demo_env no_location_response" and self = demo_client
      and target_path = "''/f''" and overwrite = True and fs = demo_fs
      and local_source = "''/tmp/in.txt''" and replication = 1 and source_path = "''/f''"
      and local_target = "''/tmp/out.txt''" and offset = 0 and len = 10000
      and buffersize = 10000]
  by (simp add: demo_env_def no_location_response_def)

end
